theory Spec2Isabelle
  imports Complex_Main "HOL-Library.Sublist" "HOL-Library.Char_ord"
begin

section \<open>JavaScript numbers\<close>

text \<open>
  Amounts, limits and totals are JavaScript Numbers. A finite Number is modelled by an
  exact rational (the rounding of IEEE doubles and the sign of zero are not modelled);
  the results of \<open>/\<close> and of the arithmetic applied to such a result are values of
  \<open>jsnum\<close>, which keeps the non-finite outcomes of JavaScript arithmetic apart:
  \<open>x / 0\<close> is \<open>Infinity\<close>, \<open>-Infinity\<close> or \<open>NaN\<close>, and no exception is raised.
\<close>

datatype jsnum = Num rat | PosInfinity | NegInfinity | NaN

definition js_div :: "rat \<Rightarrow> rat \<Rightarrow> jsnum" where
  "js_div a b =
     (if b \<noteq> 0 then Num (a / b)
      else if 0 < a then PosInfinity
      else if a < 0 then NegInfinity
      else NaN)"

fun js_times :: "jsnum \<Rightarrow> rat \<Rightarrow> jsnum" where
  "js_times (Num a) b = Num (a * b)"
| "js_times PosInfinity b =
     (if 0 < b then PosInfinity else if b < 0 then NegInfinity else NaN)"
| "js_times NegInfinity b =
     (if 0 < b then NegInfinity else if b < 0 then PosInfinity else NaN)"
| "js_times NaN b = NaN"


fun is_finite :: "jsnum \<Rightarrow> bool" where
  "is_finite (Num a) = True"
| "is_finite PosInfinity = False"
| "is_finite NegInfinity = False"
| "is_finite NaN = False"


text \<open>
  \<open>Array.prototype.sort(cmp)\<close>: a stable sort (ECMAScript 2019) that puts \<open>a\<close> before
  \<open>b\<close> when \<open>cmp(a, b) < 0\<close> and keeps the input order of elements that compare equal.
  It is a built-in; the model is the stable insertion sort with the same comparator.
\<close>

fun js_insert :: "('a \<Rightarrow> 'a \<Rightarrow> rat) \<Rightarrow> 'a \<Rightarrow> 'a list \<Rightarrow> 'a list" where
  "js_insert cmp x [] = [x]"
| "js_insert cmp x (y # ys) =
     (if cmp x y \<le> 0 then x # y # ys else y # js_insert cmp x ys)"

definition js_sort :: "('a \<Rightarrow> 'a \<Rightarrow> rat) \<Rightarrow> 'a list \<Rightarrow> 'a list" where
  "js_sort cmp xs = foldr (js_insert cmp) xs []"

section \<open>Instants and the week\<close>

text \<open>
  A \<open>Date\<close> is its number of milliseconds since the epoch. Local time is the instant
  shifted by a fixed offset \<open>tz\<close> (milliseconds east of UTC); daylight-saving changes
  are not modelled, so a calendar day is always \<open>DAY\<close> milliseconds long. The epoch
  fell on a Thursday, day index 4 of the week that \<open>getDay\<close> counts from Sunday = 0.
\<close>

definition DAY :: int where
  "DAY = 86400000"

definition getDay :: "int \<Rightarrow> int \<Rightarrow> int" where
  "getDay tz t = ((t + tz) div DAY + 4) mod 7"

text \<open>\<open>d.setDate(d.getDate() - k)\<close>: the same local time of day, \<open>k\<close> days earlier.\<close>

definition minusDays :: "int \<Rightarrow> int \<Rightarrow> int" where
  "minusDays t k = t - k * DAY"

text \<open>\<open>d.setHours(0, 0, 0, 0)\<close>: local midnight of the same local day.\<close>

definition setHoursZero :: "int \<Rightarrow> int \<Rightarrow> int" where
  "setHoursZero tz t = t - (t + tz) mod DAY"

section \<open>The client: expenses held in the root component (App.tsx)\<close>

record Expense =
  exp_id :: string
  exp_amount :: rat
  exp_category :: string
  exp_date :: string

text \<open>\<open>Omit<Expense, 'id'>\<close>\<close>

record ExpenseFields =
  new_amount :: rat
  new_category :: string
  new_date :: string

text \<open>
  \<open>handleEditExpense\<close> hands \<open>setExpenses\<close> the mapped list; the model returns that list.
  The object \<open>{ ...updatedExpense, id }\<close> has the three fields of \<open>updatedExpense\<close> and
  the \<open>id\<close> that was passed in.
\<close>

definition handleEditExpense :: "string \<Rightarrow> ExpenseFields \<Rightarrow> Expense list \<Rightarrow> Expense list" where
  "handleEditExpense ident updatedExpense expenses =
     map (\<lambda>exp. if exp_id exp = ident
                 then \<lparr>exp_id = ident,
                       exp_amount = new_amount updatedExpense,
                       exp_category = new_category updatedExpense,
                       exp_date = new_date updatedExpense\<rparr>
                 else exp) expenses"

text \<open>
  The last seven day keys. \<open>toISODate t\<close> stands for the built-in
  \<open>new Date(t).toISOString().split('T')[0]\<close>; entry \<open>i\<close> is the key of the instant
  \<open>6 - i\<close> days before \<open>now\<close>.
\<close>

definition last7Days :: "(int \<Rightarrow> string) \<Rightarrow> int \<Rightarrow> string list" where
  "last7Days toISODate now = map (\<lambda>i. toISODate (minusDays now (6 - int i))) [0..<7]"

record DayPoint =
  dp_date :: string
  dp_amount :: rat

text \<open>
  \<open>dailySpending\<close> (App.tsx) and \<open>dailyData\<close> (SpendingTrendsModal) are the same map over
  \<open>last7Days\<close>; they differ in the label only, which \<open>toLabel\<close> stands for (the built-in
  \<open>toLocaleDateString\<close> with the options each of them passes).
\<close>

definition dailySpending :: "(int \<Rightarrow> string) \<Rightarrow> (string \<Rightarrow> string) \<Rightarrow> int \<Rightarrow> Expense list \<Rightarrow> DayPoint list" where
  "dailySpending toISODate toLabel now expenses =
     map (\<lambda>date.
            let dayExpenses = filter (\<lambda>e. exp_date e = date) expenses;
                total = foldl (\<lambda>sum e. sum + exp_amount e) 0 dayExpenses
            in \<lparr>dp_date = toLabel date, dp_amount = total\<rparr>)
         (last7Days toISODate now)"

definition dailyData :: "(int \<Rightarrow> string) \<Rightarrow> (string \<Rightarrow> string) \<Rightarrow> int \<Rightarrow> Expense list \<Rightarrow> DayPoint list" where
  "dailyData toISODate toLabel now expenses =
     map (\<lambda>date.
            let dayExpenses = filter (\<lambda>e. exp_date e = date) expenses;
                total = foldl (\<lambda>sum e. sum + exp_amount e) 0 dayExpenses
            in \<lparr>dp_date = toLabel date, dp_amount = total\<rparr>)
         (last7Days toISODate now)"

text \<open>
  The dashboard card of App.tsx. \<open>parseDate d\<close> stands for the built-in
  \<open>new Date(d)\<close>: the instant a date string denotes, or \<open>None\<close> for an invalid date,
  which every comparison rejects.
\<close>

definition thisWeekTotal :: "(int \<Rightarrow> string) \<Rightarrow> (string \<Rightarrow> string) \<Rightarrow> int \<Rightarrow> Expense list \<Rightarrow> rat" where
  "thisWeekTotal toISODate toLabel now expenses =
     foldl (\<lambda>sum day. sum + dp_amount day) 0 (dailySpending toISODate toLabel now expenses)"

definition lastWeekTotal :: "(string \<Rightarrow> int option) \<Rightarrow> int \<Rightarrow> Expense list \<Rightarrow> rat" where
  "lastWeekTotal parseDate now expenses =
     foldl (\<lambda>sum e. sum + exp_amount e) 0
       (filter (\<lambda>e. case parseDate (exp_date e) of
                       None \<Rightarrow> False
                     | Some expenseDate \<Rightarrow>
                         let weekAgo = minusDays now 7;
                             twoWeeksAgo = minusDays now 14
                         in twoWeeksAgo \<le> expenseDate \<and> expenseDate < weekAgo)
               expenses)"

definition percentChange :: "(int \<Rightarrow> string) \<Rightarrow> (string \<Rightarrow> string) \<Rightarrow> (string \<Rightarrow> int option) \<Rightarrow> int \<Rightarrow> Expense list \<Rightarrow> jsnum" where
  "percentChange toISODate toLabel parseDate now expenses =
     (let this = thisWeekTotal toISODate toLabel now expenses;
          prior = lastWeekTotal parseDate now expenses
      in if 0 < prior then js_times (js_div (this - prior) prior) 100 else Num 0)"

section \<open>The client: SpendingTrendsModal\<close>

text \<open>
  \<open>categorySpending\<close> is an object used as a dictionary; \<open>Object.entries\<close> lists its keys
  in insertion order, so it is an association list. A key whose value is missing or 0
  is (re)set to 0 before the amount is added.
\<close>

definition addSpending :: "(string \<times> rat) list \<Rightarrow> Expense \<Rightarrow> (string \<times> rat) list" where
  "addSpending acc expense =
     (let acc1 = (if map_of acc (exp_category expense) = None
                  then acc @ [(exp_category expense, 0)] else acc)
      in map (\<lambda>(k, v). if k = exp_category expense then (k, v + exp_amount expense) else (k, v)) acc1)"

definition categorySpending :: "Expense list \<Rightarrow> (string \<times> rat) list" where
  "categorySpending expenses = foldl addSpending [] expenses"

definition categoryDataClient :: "Expense list \<Rightarrow> (string \<times> rat) list" where
  "categoryDataClient expenses =
     js_sort (\<lambda>a b. snd b - snd a) (categorySpending expenses)"

definition totalSpentClient :: "Expense list \<Rightarrow> rat" where
  "totalSpentClient expenses = foldl (\<lambda>sum e. sum + exp_amount e) 0 expenses"

definition avgPerDay :: "Expense list \<Rightarrow> jsnum" where
  "avgPerDay expenses =
     js_div (totalSpentClient expenses) (if length expenses > 0 then 7 else 1)"

text \<open>
  \<open>x.toFixed(1)\<close> prints \<open>x\<close> rounded to one decimal, ties away from zero, and prints
  \<open>NaN\<close> and the infinities as they are; \<open>toFixed1\<close> is the number that the string denotes.
\<close>

fun toFixed1 :: "jsnum \<Rightarrow> jsnum" where
  "toFixed1 (Num x) =
     (if x < 0 then Num (- (of_int \<lfloor>(- x) * 10 + 1 / 2\<rfloor> / 10))
      else Num (of_int \<lfloor>x * 10 + 1 / 2\<rfloor> / 10))"
| "toFixed1 y = y"

record PieSlice =
  ps_category :: string
  ps_amount :: rat
  ps_percentage :: jsnum

definition pieData :: "Expense list \<Rightarrow> PieSlice list" where
  "pieData expenses =
     map (\<lambda>(c, a). \<lparr>ps_category = c, ps_amount = a,
                     ps_percentage = toFixed1 (js_times (js_div a (totalSpentClient expenses)) 100)\<rparr>)
         (categoryDataClient expenses)"

section \<open>The server: documents and queries\<close>

text \<open>
  The collections are lists of documents. Every query of the analytics and budget
  routes is an \<open>Expense.find\<close> with a conjunction of field conditions, a \<open>filter\<close> of
  the list. User ids are opaque values.
\<close>

record ExpenseDoc =
  userId :: nat
  amount :: rat
  category :: string
  description :: string
  date :: string
  timestamp :: int

datatype period = Weekly | Monthly

record BudgetDoc =
  b_userId :: nat
  b_category :: string
  b_limit :: rat
  b_period :: period

section \<open>The server: GET /api/analytics/trends\<close>

record WindowReport =
  w_current :: rat
  w_last :: rat
  w_change :: jsnum
  w_difference :: rat

record TrendReport =
  week :: WindowReport
  month :: WindowReport

text \<open>
  \<open>monthStart now k\<close> stands for the built-in constructor call
  \<open>new Date(now.getFullYear(), now.getMonth() + k, 1)\<close>, used with \<open>k = 0\<close> and \<open>k = -1\<close>.
\<close>

definition startOfCurrentWeek :: "int \<Rightarrow> int \<Rightarrow> int" where
  "startOfCurrentWeek tz now = setHoursZero tz (minusDays now (getDay tz now))"

definition startOfLastWeek :: "int \<Rightarrow> int \<Rightarrow> int" where
  "startOfLastWeek tz now = minusDays (startOfCurrentWeek tz now) 7"

definition trends :: "int \<Rightarrow> (int \<Rightarrow> int \<Rightarrow> int) \<Rightarrow> int \<Rightarrow> nat \<Rightarrow> ExpenseDoc list \<Rightarrow> TrendReport" where
  "trends tz monthStart now uid db =
     (let currentWeekExpenses =
            filter (\<lambda>e. userId e = uid \<and> startOfCurrentWeek tz now \<le> timestamp e) db;
          endOfLastWeek = startOfCurrentWeek tz now;
          lastWeekExpenses =
            filter (\<lambda>e. userId e = uid \<and> startOfLastWeek tz now \<le> timestamp e
                         \<and> timestamp e < endOfLastWeek) db;
          startOfCurrentMonth = monthStart now 0;
          currentMonthExpenses =
            filter (\<lambda>e. userId e = uid \<and> startOfCurrentMonth \<le> timestamp e) db;
          startOfLastMonth = monthStart now (- 1);
          endOfLastMonth = monthStart now 0;
          lastMonthExpenses =
            filter (\<lambda>e. userId e = uid \<and> startOfLastMonth \<le> timestamp e
                         \<and> timestamp e < endOfLastMonth) db;
          currentWeekTotal = foldl (\<lambda>sum e. sum + amount e) 0 currentWeekExpenses;
          lastWeekTotal = foldl (\<lambda>sum e. sum + amount e) 0 lastWeekExpenses;
          currentMonthTotal = foldl (\<lambda>sum e. sum + amount e) 0 currentMonthExpenses;
          lastMonthTotal = foldl (\<lambda>sum e. sum + amount e) 0 lastMonthExpenses;
          weekChange = (if 0 < lastWeekTotal
                        then js_times (js_div (currentWeekTotal - lastWeekTotal) lastWeekTotal) 100
                        else Num 0);
          monthChange = (if 0 < lastMonthTotal
                         then js_times (js_div (currentMonthTotal - lastMonthTotal) lastMonthTotal) 100
                         else Num 0)
      in \<lparr>week = \<lparr>w_current = currentWeekTotal, w_last = lastWeekTotal,
                   w_change = weekChange,
                   w_difference = currentWeekTotal - lastWeekTotal\<rparr>,
          month = \<lparr>w_current = currentMonthTotal, w_last = lastMonthTotal,
                    w_change = monthChange,
                    w_difference = currentMonthTotal - lastMonthTotal\<rparr>\<rparr>)"

section \<open>The server: GET /api/analytics/categories\<close>

record Transaction =
  t_amount :: rat
  t_description :: string
  t_date :: string

record CategoryAcc =
  acc_total :: rat
  acc_count :: nat
  acc_transactions :: "Transaction list"

record CategoryEntry =
  c_category :: string
  c_total :: rat
  c_count :: nat
  c_percentage :: jsnum
  c_avgPerTransaction :: jsnum
  c_topExpenses :: "Transaction list"

record CategoryReport =
  r_categories :: "CategoryEntry list"
  r_totalSpent :: rat
  r_totalTransactions :: nat

text \<open>
  The optional date range of the query: both bounds given, or no condition on the date.
  The bounds are compared with the stored date strings as strings.
\<close>

definition findForReport :: "nat \<Rightarrow> (string \<times> string) option \<Rightarrow> ExpenseDoc list \<Rightarrow> ExpenseDoc list" where
  "findForReport uid dateRange db =
     filter (\<lambda>e. userId e = uid \<and>
                  (case dateRange of None \<Rightarrow> True
                   | Some (startDate, endDate) \<Rightarrow>
                       lexordp_eq startDate (date e) \<and> lexordp_eq (date e) endDate)) db"

text \<open>
  One step of the reducer that builds \<open>categoryData\<close>, an object used as a dictionary
  (an association list in the insertion order that \<open>Object.entries\<close> follows; the
  category names of the schema are not names of \<open>Object.prototype\<close>).
\<close>

definition pushTransaction :: "ExpenseDoc \<Rightarrow> Transaction" where
  "pushTransaction expense =
     \<lparr>t_amount = amount expense, t_description = description expense, t_date = date expense\<rparr>"

definition addToCategory :: "(string \<times> CategoryAcc) list \<Rightarrow> ExpenseDoc \<Rightarrow> (string \<times> CategoryAcc) list" where
  "addToCategory acc expense =
     (let acc1 = (if map_of acc (category expense) = None
                  then acc @ [(category expense, \<lparr>acc_total = 0, acc_count = 0, acc_transactions = []\<rparr>)]
                  else acc)
      in map (\<lambda>(k, d). if k = category expense
                        then (k, \<lparr>acc_total = acc_total d + amount expense,
                                  acc_count = acc_count d + 1,
                                  acc_transactions = acc_transactions d @ [pushTransaction expense]\<rparr>)
                        else (k, d)) acc1)"

definition categoryData :: "ExpenseDoc list \<Rightarrow> (string \<times> CategoryAcc) list" where
  "categoryData expenses = foldl addToCategory [] expenses"

definition categoryEntry :: "rat \<Rightarrow> string \<times> CategoryAcc \<Rightarrow> CategoryEntry" where
  "categoryEntry totalSpent = (\<lambda>(cat, d).
     \<lparr>c_category = cat,
      c_total = acc_total d,
      c_count = acc_count d,
      c_percentage = (if 0 < totalSpent then js_times (js_div (acc_total d) totalSpent) 100 else Num 0),
      c_avgPerTransaction = (if 0 < acc_count d then js_div (acc_total d) (of_nat (acc_count d)) else Num 0),
      c_topExpenses = take 5 (js_sort (\<lambda>a b. t_amount b - t_amount a) (acc_transactions d))\<rparr>)"

definition categoryReport :: "ExpenseDoc list \<Rightarrow> CategoryReport" where
  "categoryReport expenses =
     (let totalSpent = foldl (\<lambda>sum e. sum + amount e) 0 expenses;
          cats = map (categoryEntry totalSpent) (categoryData expenses)
      in \<lparr>r_categories = js_sort (\<lambda>a b. c_total b - c_total a) cats,
          r_totalSpent = totalSpent,
          r_totalTransactions = length expenses\<rparr>)"

definition categoriesRoute :: "nat \<Rightarrow> (string \<times> string) option \<Rightarrow> ExpenseDoc list \<Rightarrow> CategoryReport" where
  "categoriesRoute uid dateRange db = categoryReport (findForReport uid dateRange db)"

section \<open>The server: GET /api/budgets/status\<close>

record BudgetStatus =
  bs_budget :: BudgetDoc
  bs_spent :: rat
  bs_remaining :: rat
  bs_percentage :: jsnum
  bs_isOverBudget :: bool

text \<open>The start of the weekly window of this route keeps the time of day of \<open>now\<close>.\<close>

definition startOfWeek :: "int \<Rightarrow> int \<Rightarrow> int" where
  "startOfWeek tz now = minusDays now (getDay tz now)"

definition startDate :: "int \<Rightarrow> (int \<Rightarrow> int \<Rightarrow> int) \<Rightarrow> int \<Rightarrow> BudgetDoc \<Rightarrow> int" where
  "startDate tz monthStart now budget =
     (if b_period budget = Monthly then monthStart now 0 else startOfWeek tz now)"

definition budgetExpenses :: "int \<Rightarrow> (int \<Rightarrow> int \<Rightarrow> int) \<Rightarrow> int \<Rightarrow> nat \<Rightarrow> ExpenseDoc list \<Rightarrow> BudgetDoc \<Rightarrow> ExpenseDoc list" where
  "budgetExpenses tz monthStart now uid db budget =
     filter (\<lambda>e. userId e = uid
                  \<and> (if b_category budget = ''Total'' then True else category e = b_category budget)
                  \<and> startDate tz monthStart now budget \<le> timestamp e) db"

definition budgetStatusEntry :: "int \<Rightarrow> (int \<Rightarrow> int \<Rightarrow> int) \<Rightarrow> int \<Rightarrow> nat \<Rightarrow> ExpenseDoc list \<Rightarrow> BudgetDoc \<Rightarrow> BudgetStatus" where
  "budgetStatusEntry tz monthStart now uid db budget =
     (let expenses = budgetExpenses tz monthStart now uid db budget;
          spent = foldl (\<lambda>sum e. sum + amount e) 0 expenses;
          remaining = b_limit budget - spent;
          percentage = js_times (js_div spent (b_limit budget)) 100
      in \<lparr>bs_budget = budget, bs_spent = spent, bs_remaining = remaining,
          bs_percentage = percentage, bs_isOverBudget = (b_limit budget < spent)\<rparr>)"

definition budgetStatus :: "int \<Rightarrow> (int \<Rightarrow> int \<Rightarrow> int) \<Rightarrow> int \<Rightarrow> nat \<Rightarrow> BudgetDoc list \<Rightarrow> ExpenseDoc list \<Rightarrow> BudgetStatus list" where
  "budgetStatus tz monthStart now uid budgets db =
     map (budgetStatusEntry tz monthStart now uid db) (filter (\<lambda>b. b_userId b = uid) budgets)"

section \<open>Sample data\<close>

text \<open>
  Two users, three expenses of user 1. Day 12 after the epoch is a Tuesday, so with
  \<open>now = 12 * DAY + 5\<close> and \<open>tz = 0\<close> the current week starts at day 10 and the week
  before it at day 3; the sample calendar puts the start of the current month at day 10
  and that of the month before at day 0.
\<close>

definition sampleNow :: int where
  "sampleNow = 1036800005"

definition sampleMonthStart :: "int \<Rightarrow> int \<Rightarrow> int" where
  "sampleMonthStart now k = (if k = 0 then 864000000 else 0)"

definition sampleDb :: "ExpenseDoc list" where
  "sampleDb =
     [\<lparr>userId = 1, amount = 50, category = ''Food'', description = ''lunch'',
       date = ''1970-01-05'', timestamp = 345600000\<rparr>,
      \<lparr>userId = 1, amount = 75, category = ''Bills'', description = ''power'',
       date = ''1970-01-12'', timestamp = 950400000\<rparr>,
      \<lparr>userId = 1, amount = 20, category = ''Food'', description = ''dinner'',
       date = ''1970-01-12'', timestamp = 950400000\<rparr>,
      \<lparr>userId = 2, amount = 10, category = ''Food'', description = ''snack'',
       date = ''1970-01-12'', timestamp = 950400000\<rparr>]"



definition zeroBudget :: BudgetDoc where
  "zeroBudget = \<lparr>b_userId = 1, b_category = ''Health'', b_limit = 0, b_period = Monthly\<rparr>"

definition sampleExpenses :: "Expense list" where
  "sampleExpenses =
     [\<lparr>exp_id = ''a'', exp_amount = 1, exp_category = ''Shopping'', exp_date = ''2024-01-01''\<rparr>,
      \<lparr>exp_id = ''b'', exp_amount = 2, exp_category = ''Transport'', exp_date = ''2024-01-02''\<rparr>]"

definition sampleEdit :: ExpenseFields where
  "sampleEdit = \<lparr>new_amount = 9, new_category = ''Leisure'', new_date = ''2024-01-05''\<rparr>"

text \<open>
  The example of the specification (two categories), a category with more than five
  transactions and with ties, and a list whose amounts add up to 0.
\<close>

definition specExample :: "ExpenseDoc list" where
  "specExample =
     [\<lparr>userId = 1, amount = 50, category = ''Food'', description = ''a'',
       date = ''2024-01-01'', timestamp = 0\<rparr>,
      \<lparr>userId = 1, amount = 30, category = ''Food'', description = ''b'',
       date = ''2024-01-02'', timestamp = 0\<rparr>,
      \<lparr>userId = 1, amount = 20, category = ''Transport'', description = ''c'',
       date = ''2024-01-01'', timestamp = 0\<rparr>]"

definition tieExample :: "ExpenseDoc list" where
  "tieExample =
     [\<lparr>userId = 1, amount = 5, category = ''Food'', description = ''a'',
       date = ''2024-01-01'', timestamp = 0\<rparr>,
      \<lparr>userId = 1, amount = 9, category = ''Food'', description = ''b'',
       date = ''2024-01-01'', timestamp = 0\<rparr>,
      \<lparr>userId = 1, amount = 5, category = ''Food'', description = ''c'',
       date = ''2024-01-01'', timestamp = 0\<rparr>,
      \<lparr>userId = 1, amount = 7, category = ''Food'', description = ''d'',
       date = ''2024-01-01'', timestamp = 0\<rparr>,
      \<lparr>userId = 1, amount = 9, category = ''Food'', description = ''e'',
       date = ''2024-01-01'', timestamp = 0\<rparr>,
      \<lparr>userId = 1, amount = 5, category = ''Food'', description = ''f'',
       date = ''2024-01-01'', timestamp = 0\<rparr>]"

definition zeroExample :: "ExpenseDoc list" where
  "zeroExample =
     [\<lparr>userId = 1, amount = 0, category = ''Food'', description = ''a'',
       date = ''2024-01-01'', timestamp = 0\<rparr>]"

section \<open>What the reducer accumulates\<close>

text \<open>
  A notion for the proofs, not a part of the program: the sum, the number and the
  transactions of the expenses of category \<open>k\<close> in \<open>es\<close>, in input order.
\<close>

definition accumulated :: "ExpenseDoc list \<Rightarrow> string \<Rightarrow> CategoryAcc" where
  "accumulated es k =
     \<lparr>acc_total = sum_list (map amount (filter (\<lambda>e. category e = k) es)),
      acc_count = length (filter (\<lambda>e. category e = k) es),
      acc_transactions = map pushTransaction (filter (\<lambda>e. category e = k) es)\<rparr>"

section \<open>Basic facts\<close>

lemma foldl_add_sum_list:
  "foldl (\<lambda>sum e. sum + f e) a xs = a + sum_list (map f xs)"
  for a :: rat
  by (induction xs arbitrary: a) (simp_all add: add.assoc)

lemma sample_startOfCurrentWeek: "startOfCurrentWeek 0 sampleNow = 864000000"
  by (simp add: startOfCurrentWeek_def setHoursZero_def minusDays_def getDay_def DAY_def
      sampleNow_def)


section \<open>Editing an expense\<close>

text \<open>
  Claim C10. For every expense list and id, \<open>handleEditExpense\<close> returns a list of the
  same length in the same order: at every position whose expense has the given id the
  result holds the amount, category and date of \<open>updatedExpense\<close> under the original id,
  and at every other position the result holds the original expense unchanged.
\<close>

theorem handleEditExpense_frame:
  "length (handleEditExpense ident u es) = length es
   \<and> (\<forall>i < length es.
         (exp_id (es ! i) = ident \<longrightarrow>
            handleEditExpense ident u es ! i =
              \<lparr>exp_id = exp_id (es ! i), exp_amount = new_amount u,
               exp_category = new_category u, exp_date = new_date u\<rparr>)
       \<and> (exp_id (es ! i) \<noteq> ident \<longrightarrow> handleEditExpense ident u es ! i = es ! i))"
  by (simp add: handleEditExpense_def)

theorem handleEditExpense_frame_witness:
  "handleEditExpense ''b'' sampleEdit sampleExpenses ! 1 =
     \<lparr>exp_id = ''b'', exp_amount = 9, exp_category = ''Leisure'', exp_date = ''2024-01-05''\<rparr>
   \<and> handleEditExpense ''b'' sampleEdit sampleExpenses ! 0 =
     \<lparr>exp_id = ''a'', exp_amount = 1, exp_category = ''Shopping'', exp_date = ''2024-01-01''\<rparr>"
proof -
  have all: "\<forall>i < length sampleExpenses.
         (exp_id (sampleExpenses ! i) = ''b'' \<longrightarrow>
            handleEditExpense ''b'' sampleEdit sampleExpenses ! i =
              \<lparr>exp_id = exp_id (sampleExpenses ! i), exp_amount = new_amount sampleEdit,
               exp_category = new_category sampleEdit, exp_date = new_date sampleEdit\<rparr>)
       \<and> (exp_id (sampleExpenses ! i) \<noteq> ''b'' \<longrightarrow>
            handleEditExpense ''b'' sampleEdit sampleExpenses ! i = sampleExpenses ! i)"
    using handleEditExpense_frame [of "''b''" sampleEdit sampleExpenses] by blast
  have "(1::nat) < length sampleExpenses" and "(0::nat) < length sampleExpenses"
    by (simp_all add: sampleExpenses_def)
  with all have
    "exp_id (sampleExpenses ! 1) = ''b'' \<longrightarrow>
       handleEditExpense ''b'' sampleEdit sampleExpenses ! 1 =
         \<lparr>exp_id = exp_id (sampleExpenses ! 1), exp_amount = new_amount sampleEdit,
          exp_category = new_category sampleEdit, exp_date = new_date sampleEdit\<rparr>"
    and "exp_id (sampleExpenses ! 0) \<noteq> ''b'' \<longrightarrow>
       handleEditExpense ''b'' sampleEdit sampleExpenses ! 0 = sampleExpenses ! 0"
    by blast+
  then show ?thesis by (simp add: sampleExpenses_def sampleEdit_def)
qed

section \<open>Trend changes\<close>

text \<open>
  Claim C2. In the trend report, for the week window and for the month window alike, the
  change is the finite number (current - prior) / prior * 100 whenever the prior total
  is strictly positive and is 0 whenever the prior total is 0, whatever the current
  total; the computation yields a Number in both cases and raises nothing.
\<close>

theorem trend_change_percentage:
  "(let r = trends tz monthStart now uid db in
      (0 < w_last (week r) \<longrightarrow>
         w_change (week r) = Num ((w_current (week r) - w_last (week r)) / w_last (week r) * 100))
    \<and> (w_last (week r) = 0 \<longrightarrow> w_change (week r) = Num 0)
    \<and> (0 < w_last (month r) \<longrightarrow>
         w_change (month r) = Num ((w_current (month r) - w_last (month r)) / w_last (month r) * 100))
    \<and> (w_last (month r) = 0 \<longrightarrow> w_change (month r) = Num 0))"
  by (simp add: trends_def Let_def js_div_def)

theorem trend_change_percentage_witness:
  "w_last (week (trends 0 sampleMonthStart sampleNow 1 sampleDb)) = 50
   \<and> w_change (week (trends 0 sampleMonthStart sampleNow 1 sampleDb)) = Num 90
   \<and> w_change (month (trends 0 sampleMonthStart sampleNow 1 sampleDb)) = Num 90
   \<and> w_last (week (trends 0 sampleMonthStart sampleNow 1 [])) = 0
   \<and> w_change (week (trends 0 sampleMonthStart sampleNow 1 [])) = Num 0
   \<and> w_change (month (trends 0 sampleMonthStart sampleNow 1 [])) = Num 0"
  using trend_change_percentage [of 0 sampleMonthStart sampleNow 1 sampleDb]
    trend_change_percentage [of 0 sampleMonthStart sampleNow 1 "[]"]
  by (simp add: trends_def Let_def sample_startOfCurrentWeek startOfLastWeek_def minusDays_def
      DAY_def sampleDb_def sampleMonthStart_def)

text \<open>The dashboard card of the client guards its division in the same way.\<close>

lemma percentChange_guarded:
  "(0 < lastWeekTotal parseDate now es \<longrightarrow>
      percentChange toISODate toLabel parseDate now es =
        Num ((thisWeekTotal toISODate toLabel now es - lastWeekTotal parseDate now es)
             / lastWeekTotal parseDate now es * 100))
   \<and> (lastWeekTotal parseDate now es = 0 \<longrightarrow>
      percentChange toISODate toLabel parseDate now es = Num 0)"
  by (simp add: percentChange_def Let_def js_div_def)

section \<open>The daily series\<close>

text \<open>
  Claim C6. The daily series (\<open>dailySpending\<close> of the dashboard and \<open>dailyData\<close> of the
  trends modal) has exactly 7 entries for every expense list. Entry \<open>i\<close> belongs to the
  day key of the instant \<open>6 - i\<close> days before now, so the entries run from the oldest day
  to today, and its amount is the sum of the amounts of exactly the expenses whose date
  string equals that key; with no such expense, and so for the empty list, it is 0.
\<close>

theorem daily_series_seven:
  "length (dailySpending toISODate toLabel now expenses) = 7
   \<and> map dp_amount (dailySpending toISODate toLabel now expenses) =
       map (\<lambda>i. sum_list (map exp_amount
                  (filter (\<lambda>e. exp_date e = toISODate (now - (6 - int i) * DAY)) expenses)))
           [0..<7]
   \<and> map dp_amount (dailySpending toISODate toLabel now []) = replicate 7 0
   \<and> length (dailyData toISODate toLabel' now expenses) = 7
   \<and> map dp_amount (dailyData toISODate toLabel' now expenses) =
       map (\<lambda>i. sum_list (map exp_amount
                  (filter (\<lambda>e. exp_date e = toISODate (now - (6 - int i) * DAY)) expenses)))
           [0..<7]
   \<and> map dp_amount (dailyData toISODate toLabel' now []) = replicate 7 0
   \<and> last7Days toISODate now ! 6 = toISODate now"
  by (simp add: dailySpending_def dailyData_def last7Days_def Let_def foldl_add_sum_list
      minusDays_def o_def map_replicate_const nth_append)

section \<open>Budget status\<close>



lemma budgetStatus_budgets:
  "map bs_budget (budgetStatus tz monthStart now uid budgets db) =
     filter (\<lambda>b. b_userId b = uid) budgets"
  by (simp add: budgetStatus_def budgetStatusEntry_def Let_def o_def)



section \<open>Divisions by zero\<close>

text \<open>
  The guarded quotients are finite for every input: the two trend changes, the average
  per day of the trends modal (its divisor is 7 or 1), and, shown with the category
  report below, the percentages and averages of the categories.
\<close>

lemma trend_changes_finite:
  "is_finite (w_change (week (trends tz monthStart now uid db)))
   \<and> is_finite (w_change (month (trends tz monthStart now uid db)))"
  by (simp add: trends_def Let_def js_div_def)

lemma avgPerDay_finite: "is_finite (avgPerDay es)"
  by (simp add: avgPerDay_def js_div_def)

text \<open>
  The budget percentage is the one quotient of the server that has no guard, and the
  percentage of the pie chart is the one of the client: a budget whose limit is 0 never
  has a finite percentage, and a pie slice has none when the amounts add up to 0.
\<close>

lemma budget_percentage_not_finite:
  "b_limit budget = 0 \<Longrightarrow>
     \<not> is_finite (bs_percentage (budgetStatusEntry tz monthStart now uid db budget))"
  by (simp add: budgetStatusEntry_def Let_def js_div_def)

lemma pieData_zero_total:
  "map ps_percentage
     (pieData [\<lparr>exp_id = ''a'', exp_amount = 0, exp_category = ''Shopping'', exp_date = ''2024-01-01''\<rparr>])
   = [NaN]"
  by (simp add: pieData_def categoryDataClient_def categorySpending_def addSpending_def
      totalSpentClient_def js_sort_def js_div_def)

text \<open>
  Claim C9 (every division by zero of the aggregation functions resolves to a defined
  finite fallback value, also the budget percentage of a budget whose limit is 0),
  evaluated on the code at such a budget: the status entry of the sample user's budget
  with limit 0 and nothing spent has the percentage \<open>NaN\<close>, which is not a finite value.
\<close>

theorem budget_percentage_zero_limit:
  "bs_percentage (budgetStatusEntry 0 sampleMonthStart sampleNow 1 sampleDb zeroBudget) = NaN
   \<and> \<not> is_finite (bs_percentage (budgetStatusEntry 0 sampleMonthStart sampleNow 1 sampleDb zeroBudget))"
  by (simp add: budgetStatusEntry_def budgetExpenses_def Let_def js_div_def zeroBudget_def
      sampleDb_def)

section \<open>The start of the week\<close>

lemma day_index_minusDays: "(minusDays t k + tz) div DAY = (t + tz) div DAY - k"
proof -
  have "minusDays t k + tz = (t + tz) + (- k) * DAY" by (simp add: minusDays_def)
  then have "(minusDays t k + tz) div DAY = (t + tz) div DAY + (- k)"
    by (simp only: div_mult_self1 DAY_def)
  then show ?thesis by simp
qed

lemma setHoursZero_local: "setHoursZero tz t + tz = ((t + tz) div DAY) * DAY"
proof -
  have "setHoursZero tz t + tz = (t + tz) - (t + tz) mod DAY"
    by (simp add: setHoursZero_def)
  then show ?thesis by (simp only: minus_mod_eq_div_mult)
qed

lemma DAY_pos: "0 < DAY"
  by (simp add: DAY_def)

lemma week_start_properties:
  "getDay tz (startOfCurrentWeek tz now) = 0
   \<and> (startOfCurrentWeek tz now + tz) mod DAY = 0
   \<and> startOfCurrentWeek tz now \<le> now
   \<and> now < startOfCurrentWeek tz now + 7 * DAY"
proof -
  define D where "D = (now + tz) div DAY"
  define g where "g = getDay tz now"
  define s where "s = startOfCurrentWeek tz now"
  have g: "g = (D + 4) mod 7" by (simp add: g_def D_def getDay_def)
  have g0: "0 \<le> g" and g7: "g < 7" unfolding g by simp_all
  have loc: "s + tz = (D - g) * DAY"
    unfolding s_def startOfCurrentWeek_def setHoursZero_local day_index_minusDays g_def D_def ..
  have d: "(s + tz) div DAY = D - g" unfolding loc using DAY_pos by simp
  have 1: "getDay tz s = 0"
    unfolding getDay_def d g by presburger
  have 2: "(s + tz) mod DAY = 0" unfolding loc by simp
  have nd: "now + tz = D * DAY + (now + tz) mod DAY"
    unfolding D_def by simp
  have m0: "0 \<le> (now + tz) mod DAY" and m1: "(now + tz) mod DAY < DAY"
    using DAY_pos by simp_all
  have gd: "0 \<le> g * DAY" using g0 DAY_pos by simp
  have "s + tz \<le> now + tz"
    using loc nd m0 gd by (simp add: algebra_simps)
  then have 3: "s \<le> now" by simp
  have "g * DAY \<le> 6 * DAY" using g7 DAY_pos by simp
  then have "now + tz < s + tz + 7 * DAY"
    using loc nd m1 by (simp add: algebra_simps)
  then have 4: "now < s + 7 * DAY" by simp
  from 1 2 3 4 show ?thesis unfolding s_def by simp
qed

section \<open>Sorting with a comparator\<close>

text \<open>
  With the comparator \<open>(a, b) => f(b) - f(a)\<close> the sort is a descending sort by \<open>f\<close>
  that keeps, for every value of \<open>f\<close>, the elements of that value in their input order.
\<close>

lemma set_js_insert: "set (js_insert cmp x ys) = insert x (set ys)"
  by (induction ys) auto

lemma set_js_sort: "set (js_sort cmp xs) = set xs"
  by (induction xs) (simp_all add: js_sort_def set_js_insert)



lemma length_js_insert: "length (js_insert cmp x ys) = Suc (length ys)"
  by (induction ys) simp_all

lemma length_js_sort: "length (js_sort cmp xs) = length xs"
  by (induction xs) (simp_all add: js_sort_def length_js_insert)

lemma sorted_js_insert:
  "sorted_wrt (\<lambda>a b. f b \<le> f a) ys \<Longrightarrow>
     sorted_wrt (\<lambda>a b. f b \<le> f a) (js_insert (\<lambda>a b. f b - f a) x ys)"
  for f :: "'a \<Rightarrow> rat"
proof (induction ys)
  case Nil
  then show ?case by simp
next
  case (Cons y ys)
  show ?case
  proof (cases "f y \<le> f x")
    case True
    with Cons.prems show ?thesis by auto
  next
    case False
    with Cons show ?thesis by (auto simp add: set_js_insert)
  qed
qed

lemma sorted_js_sort:
  "sorted_wrt (\<lambda>a b. f b \<le> f a) (js_sort (\<lambda>a b. f b - f a) xs)"
  for f :: "'a \<Rightarrow> rat"
proof (induction xs)
  case Nil
  then show ?case by (simp add: js_sort_def)
next
  case (Cons x xs)
  have "js_sort (\<lambda>a b. f b - f a) (x # xs) =
      js_insert (\<lambda>a b. f b - f a) x (js_sort (\<lambda>a b. f b - f a) xs)"
    by (simp add: js_sort_def)
  with Cons show ?case by (simp add: sorted_js_insert)
qed

lemma filter_js_insert:
  "sorted_wrt (\<lambda>a b. f b \<le> f a) ys \<Longrightarrow>
     filter (\<lambda>t. f t = v) (js_insert (\<lambda>a b. f b - f a) x ys) =
       (if f x = v then x # filter (\<lambda>t. f t = v) ys else filter (\<lambda>t. f t = v) ys)"
  for f :: "'a \<Rightarrow> rat"
  by (induction ys) auto

lemma filter_js_sort:
  "filter (\<lambda>t. f t = v) (js_sort (\<lambda>a b. f b - f a) xs) = filter (\<lambda>t. f t = v) xs"
  for f :: "'a \<Rightarrow> rat"
proof (induction xs)
  case Nil
  then show ?case by (simp add: js_sort_def)
next
  case (Cons x xs)
  have "js_sort (\<lambda>a b. f b - f a) (x # xs) =
      js_insert (\<lambda>a b. f b - f a) x (js_sort (\<lambda>a b. f b - f a) xs)"
    by (simp add: js_sort_def)
  with Cons show ?case by (simp add: filter_js_insert sorted_js_sort)
qed

section \<open>The dictionary of categories\<close>

text \<open>
  After the reducer has run over \<open>es\<close>, the dictionary has one key for every category
  of \<open>es\<close>, in the order of first occurrence, and under each key the sum, the number
  and the transactions of the expenses of that category, in input order.
\<close>

lemma map_of_keyed: "map_of (map (\<lambda>k. (k, F k)) K) c = None \<longleftrightarrow> c \<notin> set K"
  by (induction K) auto

lemma categoryData_append:
  "categoryData (es @ [e]) = addToCategory (categoryData es) e"
  by (simp add: categoryData_def)

lemma categoryData_char:
  "categoryData es =
     map (\<lambda>k. (k, \<lparr>acc_total = sum_list (map amount (filter (\<lambda>e. category e = k) es)),
                    acc_count = length (filter (\<lambda>e. category e = k) es),
                    acc_transactions = map pushTransaction (filter (\<lambda>e. category e = k) es)\<rparr>))
         (rev (remdups (rev (map category es))))"
proof (induction es rule: rev_induct)
  case Nil
  then show ?case by (simp add: categoryData_def)
next
  case (snoc e es)
  let ?K = "rev (remdups (rev (map category es)))"
  let ?c = "category e"
  let ?F = "\<lambda>k. \<lparr>acc_total = sum_list (map amount (filter (\<lambda>e. category e = k) es)),
                 acc_count = length (filter (\<lambda>e. category e = k) es),
                 acc_transactions = map pushTransaction (filter (\<lambda>e. category e = k) es)\<rparr>"
  have setK: "set ?K = category ` set es" by simp
  show ?case
  proof (cases "?c \<in> category ` set es")
    case True
    then have K': "rev (remdups (rev (map category (es @ [e])))) = ?K" by simp
    have none: "map_of (map (\<lambda>k. (k, ?F k)) ?K) ?c \<noteq> None"
      using True by (simp only: map_of_keyed setK) simp
    show ?thesis
      unfolding categoryData_append snoc.IH K' addToCategory_def Let_def
      using none by (auto simp add: o_def)
  next
    case False
    then have K': "rev (remdups (rev (map category (es @ [e])))) = ?K @ [?c]" by simp
    have none: "map_of (map (\<lambda>k. (k, ?F k)) ?K) ?c = None"
      using False by (simp only: map_of_keyed setK) simp
    have empty: "filter (\<lambda>x. category x = ?c) es = []"
      using False by (auto simp add: filter_empty_conv intro: rev_image_eqI)
    show ?thesis
      unfolding categoryData_append snoc.IH K' addToCategory_def Let_def
      using none False by (auto simp add: o_def empty)
  qed
qed




section \<open>The week windows of the trend report\<close>

text \<open>
  Claim C5. The current week of the trend report starts at the instant \<open>s\<close> that is the
  most recent local midnight of a day with index 0 (\<open>s\<close> is a midnight, its day has index
  0, and \<open>s \<le> now < s + 7 days\<close>); the prior week starts 7 days before \<open>s\<close>. The current
  total is the sum of the amounts of exactly the user's expenses stamped at or after
  \<open>s\<close>, the prior total that of exactly those stamped from \<open>s - 7 days\<close> on and strictly
  before \<open>s\<close>.
\<close>

theorem week_windows:
  "(let s = startOfCurrentWeek tz now; r = trends tz monthStart now uid db in
      getDay tz s = 0 \<and> (s + tz) mod DAY = 0 \<and> s \<le> now \<and> now < s + 7 * DAY
    \<and> startOfLastWeek tz now = s - 7 * DAY
    \<and> w_current (week r) =
        sum_list (map amount (filter (\<lambda>e. userId e = uid \<and> s \<le> timestamp e) db))
    \<and> w_last (week r) =
        sum_list (map amount
          (filter (\<lambda>e. userId e = uid \<and> s - 7 * DAY \<le> timestamp e \<and> timestamp e < s) db)))"
  using week_start_properties [of tz now]
  by (simp add: Let_def trends_def foldl_add_sum_list startOfLastWeek_def minusDays_def)

theorem week_windows_witness:
  "startOfCurrentWeek 0 sampleNow = 864000000
   \<and> w_current (week (trends 0 sampleMonthStart sampleNow 1 sampleDb)) = 95
   \<and> w_last (week (trends 0 sampleMonthStart sampleNow 1 sampleDb)) = 50"
  using week_windows [of 0 sampleNow sampleMonthStart 1 sampleDb]
  by (simp add: Let_def sample_startOfCurrentWeek sampleDb_def DAY_def)

section \<open>The category report\<close>

lemma totalSpent_sum: "r_totalSpent (categoryReport es) = sum_list (map amount es)"
  by (simp add: categoryReport_def Let_def foldl_add_sum_list)

lemma report_entry:
  assumes "c \<in> set (r_categories (categoryReport es))"
  shows "c = categoryEntry (sum_list (map amount es)) (c_category c, accumulated es (c_category c))"
proof -
  from assms obtain k where "c = categoryEntry (sum_list (map amount es)) (k, accumulated es k)"
    by (auto simp add: categoryReport_def Let_def set_js_sort foldl_add_sum_list
        categoryData_char accumulated_def)
  moreover from this have "c_category c = k" by (simp add: categoryEntry_def)
  ultimately show ?thesis by simp
qed




lemma category_quotients_finite:
  assumes "c \<in> set (r_categories (categoryReport es))"
  shows "is_finite (c_percentage c) \<and> is_finite (c_avgPerTransaction c)"
  by (subst (1 2) report_entry [OF assms]) (simp add: categoryEntry_def js_div_def)

lemma specExample_report:
  shows specExample_categories:
      "map c_category (r_categories (categoryReport specExample)) = [''Food'', ''Transport'']"
    and specExample_totals: "map c_total (r_categories (categoryReport specExample)) = [80, 20]"
    and specExample_counts: "map c_count (r_categories (categoryReport specExample)) = [2, 1]"
    and specExample_percentages:
      "map c_percentage (r_categories (categoryReport specExample)) = [Num 80, Num 20]"
    and specExample_totalSpent: "r_totalSpent (categoryReport specExample) = 100"
  by (simp_all add: categoryReport_def categoryData_def addToCategory_def categoryEntry_def
      js_sort_def js_div_def Let_def specExample_def pushTransaction_def)

lemma zeroExample_report:
  shows zeroExample_percentages:
      "map c_percentage (r_categories (categoryReport zeroExample)) = [Num 0]"
    and zeroExample_totalSpent: "r_totalSpent (categoryReport zeroExample) = 0"
  by (simp_all add: categoryReport_def categoryData_def addToCategory_def categoryEntry_def
      js_sort_def js_div_def Let_def zeroExample_def pushTransaction_def)

lemma hd_of_map: "map f xs = y # ys \<Longrightarrow> hd xs \<in> set xs \<and> f (hd xs) = y"
  by (cases xs) auto

lemma tieExample_top:
  "map (map t_description \<circ> c_topExpenses) (r_categories (categoryReport tieExample))
       = [[''b'', ''e'', ''d'', ''a'', ''c'']]"
  by (simp add: categoryReport_def categoryData_def addToCategory_def categoryEntry_def
      js_sort_def js_div_def Let_def tieExample_def pushTransaction_def)



text \<open>
  Claim C4. In the category report the percentage of a category is its total (the sum of
  the amounts of the expenses of that category) divided by the grand total (the sum of
  all amounts) times 100 when the grand total is strictly positive, and 0 when the
  grand total is 0.
\<close>

theorem category_percentage:
  assumes "c \<in> set (r_categories (categoryReport es))"
  shows "c_total c = sum_list (map amount (filter (\<lambda>e. category e = c_category c) es))
   \<and> r_totalSpent (categoryReport es) = sum_list (map amount es)
   \<and> (0 < r_totalSpent (categoryReport es) \<longrightarrow>
        c_percentage c = Num (c_total c / r_totalSpent (categoryReport es) * 100))
   \<and> (r_totalSpent (categoryReport es) = 0 \<longrightarrow> c_percentage c = Num 0)"
proof -
  note c = report_entry [OF assms]
  have 1: "c_total c = sum_list (map amount (filter (\<lambda>e. category e = c_category c) es))"
    by (subst c) (simp add: categoryEntry_def accumulated_def)
  have 2: "0 < sum_list (map amount es) \<longrightarrow>
        c_percentage c = Num (c_total c / sum_list (map amount es) * 100)"
    by (subst (1 2) c) (simp add: categoryEntry_def js_div_def)
  have 3: "sum_list (map amount es) = 0 \<longrightarrow> c_percentage c = Num 0"
    by (subst c) (simp add: categoryEntry_def)
  from 1 2 3 show ?thesis by (simp add: totalSpent_sum)
qed

theorem category_percentage_witness:
  "hd (r_categories (categoryReport specExample)) \<in> set (r_categories (categoryReport specExample))
   \<and> 0 < r_totalSpent (categoryReport specExample)
   \<and> c_percentage (hd (r_categories (categoryReport specExample))) = Num 80
   \<and> hd (r_categories (categoryReport zeroExample)) \<in> set (r_categories (categoryReport zeroExample))
   \<and> r_totalSpent (categoryReport zeroExample) = 0
   \<and> c_percentage (hd (r_categories (categoryReport zeroExample))) = Num 0"
proof -
  note a = hd_of_map [OF specExample_totals, THEN conjunct1]
  note ta = hd_of_map [OF specExample_totals, THEN conjunct2]
  note b = hd_of_map [OF zeroExample_percentages, THEN conjunct1]
  show ?thesis
    using a b category_percentage [OF a] category_percentage [OF b]
    by (simp add: specExample_totalSpent zeroExample_totalSpent ta)
qed

text \<open>
  Claim C3. In the category report the \<open>topExpenses\<close> of every category has at most 5
  entries and is sorted by amount descending; among the transactions of the category
  that have one and the same amount it lists them in their input order, earliest first
  (those it holds are an initial segment of those of the input).
\<close>

theorem top_expenses_sorted:
  assumes "c \<in> set (r_categories (categoryReport es))"
  shows "length (c_topExpenses c) \<le> 5
   \<and> sorted_wrt (\<lambda>a b. t_amount b \<le> t_amount a) (c_topExpenses c)
   \<and> (\<forall>v. prefix (filter (\<lambda>t. t_amount t = v) (c_topExpenses c))
              (filter (\<lambda>t. t_amount t = v)
                 (map pushTransaction (filter (\<lambda>e. category e = c_category c) es))))"
proof -
  let ?txs = "map pushTransaction (filter (\<lambda>e. category e = c_category c) es)"
  let ?sorted = "js_sort (\<lambda>a b. t_amount b - t_amount a) ?txs"
  have top: "c_topExpenses c = take 5 ?sorted"
    by (subst report_entry [OF assms]) (simp add: categoryEntry_def accumulated_def)
  have 1: "length (c_topExpenses c) \<le> 5" by (simp add: top)
  have 2: "sorted_wrt (\<lambda>a b. t_amount b \<le> t_amount a) (c_topExpenses c)"
    unfolding top by (rule sorted_wrt_take) (rule sorted_js_sort)
  have 3: "prefix (filter (\<lambda>t. t_amount t = v) (c_topExpenses c))
              (filter (\<lambda>t. t_amount t = v) ?txs)" for v
  proof -
    have "prefix (filter (\<lambda>t. t_amount t = v) (take 5 ?sorted)) (filter (\<lambda>t. t_amount t = v) ?sorted)"
      by (rule filter_mono_prefix) (rule take_is_prefix)
    then show ?thesis by (simp only: top filter_js_sort)
  qed
  from 1 2 3 show ?thesis by blast
qed

theorem top_expenses_sorted_witness:
  "hd (r_categories (categoryReport tieExample)) \<in> set (r_categories (categoryReport tieExample))
   \<and> map t_description (c_topExpenses (hd (r_categories (categoryReport tieExample))))
       = [''b'', ''e'', ''d'', ''a'', ''c'']
   \<and> length (c_topExpenses (hd (r_categories (categoryReport tieExample)))) \<le> 5"
proof -
  note a = hd_of_map [OF tieExample_top, THEN conjunct1]
  note d = hd_of_map [OF tieExample_top, THEN conjunct2]
  show ?thesis
    using a d top_expenses_sorted [OF a] by simp
qed

end
